theory Spec2Isabelle
  imports Main
begin

section \<open>The Telisaran reckoning: data model of \<open>reckoning/telisaran.py\<close>\<close>

text \<open>
  Python integers are unbounded, so every number is an \<open>int\<close>. A raised exception is the
  \<open>Inl\<close> branch of a sum; the exception classes of the module are the constructors of
  \<open>error\<close>. \<open>TypeError\<close> is the built-in exception Python raises when an
  \<^verbatim>\<open>__init__\<close> method returns something other than \<^verbatim>\<open>None\<close>.
\<close>

datatype error =
    InvalidEraError
  | InvalidYearError
  | InvalidSeasonError
  | InvalidSpanError
  | InvalidDayError
  | InvalidHourError
  | InvalidMinuteError
  | InvalidDateError
  | MissingSeasonError
  | TypeError

text \<open>
  The two season classes, \<^verbatim>\<open>Season\<close> and its subclass \<^verbatim>\<open>FestivalOfTheHunt\<close>.
  An instance records its class, since the class attributes \<^verbatim>\<open>length_in_days\<close> and
  \<^verbatim>\<open>length_in_seconds\<close> are looked up through it.
\<close>

datatype season_class = SeasonClass | FestivalOfTheHuntClass

record Era =
  era :: int
  era_end :: "int option"

text \<open>
  The \<^verbatim>\<open>year\<close> attribute of a season is the year's number: \<^verbatim>\<open>datetime.__init__\<close>
  passes the integer, \<^verbatim>\<open>Year.__init__\<close> passes the year object itself, of which the
  model keeps the number.
\<close>

record Season =
  cls :: season_class
  season_of_year :: int
  season_year :: int

record Year =
  year_era :: Era
  year :: int
  seasons :: "Season list"

record Day =
  day_of_season :: int
  day_season :: "Season option"

record Hour =
  hour :: int

record Minute =
  minute :: int

record datetime =
  dt_era :: Era
  dt_year :: Year
  dt_season :: Season
  dt_day :: Day
  dt_hour :: Hour
  dt_minute :: Minute
  dt_second :: int

subsection \<open>Class attributes\<close>

definition Minute_length_in_seconds :: int where
  "Minute_length_in_seconds = 60"

definition Hour_length_in_seconds :: int where
  "Hour_length_in_seconds = 60 * Minute_length_in_seconds"

definition Day_length_in_seconds :: int where
  "Day_length_in_seconds = 24 * Hour_length_in_seconds"

definition Day_names :: "string list" where
  "Day_names = [''Syfdag'', ''Mimdag'', ''Wodag'', ''Thordag'', ''Freydag'']"

definition Span_length_in_days :: int where
  "Span_length_in_days = int (length Day_names)"

definition Span_length_in_seconds :: int where
  "Span_length_in_seconds = Span_length_in_days * Day_length_in_seconds"

definition Season_names :: "string list" where
  "Season_names = [''Fox'', ''Owl'', ''Wolf'', ''Eagle'', ''Shark'', ''Lion'', ''Raven'', ''Bear'']"

definition Season_length_in_spans :: int where
  "Season_length_in_spans = 9"

definition Season_length_in_days :: int where
  "Season_length_in_days = Season_length_in_spans * Span_length_in_days"

definition Season_length_in_seconds :: int where
  "Season_length_in_seconds = Season_length_in_days * Day_length_in_seconds"

definition FestivalOfTheHunt_length_in_spans :: int where
  "FestivalOfTheHunt_length_in_spans = 1"

definition FestivalOfTheHunt_length_in_days :: int where
  "FestivalOfTheHunt_length_in_days = 5"

definition FestivalOfTheHunt_length_in_seconds :: int where
  "FestivalOfTheHunt_length_in_seconds = FestivalOfTheHunt_length_in_days * Day_length_in_seconds"

definition Year_length_in_seasons :: int where
  "Year_length_in_seasons = int (length Season_names)"

definition Year_length_in_spans :: int where
  "Year_length_in_spans = Year_length_in_seasons * Season_length_in_spans + 1"

definition Year_length_in_days :: int where
  "Year_length_in_days = Year_length_in_spans * Span_length_in_days"

definition Year_length_in_seconds :: int where
  "Year_length_in_seconds = Year_length_in_days * Day_length_in_seconds"

definition Era_long_names :: "string list" where
  "Era_long_names = [''Ancient Era'', ''Old Era'', ''Modern Era'']"

definition Era_length_in_seconds :: int where
  "Era_length_in_seconds = 10000 * Year_length_in_seconds"

text \<open>
  \<^verbatim>\<open>self.length_in_days\<close> and \<^verbatim>\<open>self.length_in_seconds\<close> on a season instance: the
  attribute of the instance's own class.
\<close>

definition self_length_in_days :: "Season \<Rightarrow> int" where
  "self_length_in_days s =
     (case cls s of
        SeasonClass \<Rightarrow> Season_length_in_days
      | FestivalOfTheHuntClass \<Rightarrow> FestivalOfTheHunt_length_in_days)"

definition self_length_in_seconds :: "Season \<Rightarrow> int" where
  "self_length_in_seconds s =
     (case cls s of
        SeasonClass \<Rightarrow> Season_length_in_seconds
      | FestivalOfTheHuntClass \<Rightarrow> FestivalOfTheHunt_length_in_seconds)"

subsection \<open>Constructors\<close>

text \<open>
  Sequencing of statements that may raise: the first exception ends the computation.
\<close>

fun and_then :: "error + 'a \<Rightarrow> ('a \<Rightarrow> error + 'b) \<Rightarrow> error + 'b" where
  "and_then (Inl e) f = Inl e"
| "and_then (Inr x) f = f x"

text \<open>
  A list comprehension whose elements may raise: the first exception, in list order,
  leaves the comprehension.
\<close>

fun collect :: "(error + 'a) list \<Rightarrow> error + 'a list" where
  "collect [] = Inr []"
| "collect (r # rs) = and_then r (\<lambda>x. and_then (collect rs) (\<lambda>xs. Inr (x # xs)))"

definition Minute_init :: "int \<Rightarrow> error + Minute" where
  "Minute_init m =
     (if m < 0 \<or> m > 59 then Inl InvalidHourError else Inr \<lparr>minute = m\<rparr>)"

definition Hour_init :: "int \<Rightarrow> error + Hour" where
  "Hour_init h =
     (if h < 0 \<or> h > 23 then Inl InvalidHourError else Inr \<lparr>hour = h\<rparr>)"

definition Day_init :: "int \<Rightarrow> Season option \<Rightarrow> error + Day" where
  "Day_init d s =
     (if d < 1 \<or> d > Season_length_in_days then Inl InvalidDayError
      else Inr \<lparr>day_of_season = d, day_season = s\<rparr>)"

definition FestivalOfTheHunt_init :: "int \<Rightarrow> Season" where
  "FestivalOfTheHunt_init y =
     \<lparr>cls = FestivalOfTheHuntClass, season_of_year = 9, season_year = y\<rparr>"

text \<open>
  \<^verbatim>\<open>Season.__init__\<close> at ordinal 9 evaluates \<^verbatim>\<open>return FestivalOfTheHunt(year)\<close>. The
  value returned by \<^verbatim>\<open>__init__\<close> is not \<^verbatim>\<open>None\<close>, so the call \<^verbatim>\<open>Season(9, year)\<close>
  raises \<^verbatim>\<open>TypeError\<close>.
\<close>

definition Season_init :: "int \<Rightarrow> int \<Rightarrow> error + Season" where
  "Season_init n y =
     (if n = int (length Season_names) + 1 then Inl TypeError
      else if n < 1 \<or> n > int (length Season_names) then Inl InvalidSeasonError
      else Inr \<lparr>cls = SeasonClass, season_of_year = n, season_year = y\<rparr>)"

definition Era_init :: "int \<Rightarrow> int option \<Rightarrow> error + Era" where
  "Era_init e en =
     (if e < 1 \<or> e > int (length Era_long_names) + 1 then Inl InvalidEraError
      else Inr \<lparr>era = e, era_end = en\<rparr>)"

text \<open>
  \<^verbatim>\<open>self.era.end and year > self.era.end\<close>: \<^verbatim>\<open>None\<close> and \<open>0\<close> are both false in
  Python.
\<close>

definition Year_init :: "int \<Rightarrow> Era \<Rightarrow> error + Year" where
  "Year_init y e =
     (if y < 1 then Inl InvalidYearError
      else if (case era_end e of None \<Rightarrow> False | Some en \<Rightarrow> en \<noteq> 0 \<and> y > en)
        then Inl InvalidYearError
      else
        and_then (collect (map (\<lambda>i. Season_init i y) [1 .. Year_length_in_seasons]))
          (\<lambda>ss. Inr \<lparr>year_era = e, year = y, seasons = ss @ [FestivalOfTheHunt_init y]\<rparr>))"

definition datetime_init ::
  "int \<Rightarrow> int \<Rightarrow> int \<Rightarrow> int \<Rightarrow> int \<Rightarrow> int \<Rightarrow> int \<Rightarrow> error + datetime" where
  "datetime_init e y s d h m sec =
     and_then (Era_init e None) (\<lambda>er.
     and_then (Year_init y er) (\<lambda>yr.
     and_then (if s = Year_length_in_seasons + 1 then Inr (FestivalOfTheHunt_init y)
               else Season_init s (year yr)) (\<lambda>sn.
     and_then (Day_init d (Some sn)) (\<lambda>dy.
     and_then (Hour_init h) (\<lambda>hr.
     and_then (Minute_init h) (\<lambda>mn.
       if sec < 0 \<or> sec > 59 then Inl InvalidDateError
       else Inr \<lparr>dt_era = er, dt_year = yr, dt_season = sn, dt_day = dy,
                 dt_hour = hr, dt_minute = mn, dt_second = sec\<rparr>))))))"

text \<open>
  The \<^verbatim>\<open>days\<close> property of a season: on first use the cache \<^verbatim>\<open>_days\<close> is empty and is
  filled with \<^verbatim>\<open>Day(i, season=self)\<close> for \<open>i\<close> from 1 to \<^verbatim>\<open>Season.length_in_days\<close>.
\<close>

definition Season_days :: "Season \<Rightarrow> error + Day list" where
  "Season_days s = collect (map (\<lambda>i. Day_init i (Some s)) [1 .. Season_length_in_days])"

subsection \<open>Offsets\<close>

text \<open>
  \<^verbatim>\<open>int(x)\<close> of a date object. \<^verbatim>\<open>DateObject.__int__\<close> returns \<^verbatim>\<open>as_seconds\<close>, which is
  \<^verbatim>\<open>(number - 1) * length_in_seconds\<close> unless the class overrides it; \<^verbatim>\<open>Hour\<close> and
  \<^verbatim>\<open>Minute\<close> override \<^verbatim>\<open>as_seconds\<close>, \<^verbatim>\<open>Season\<close> overrides \<^verbatim>\<open>__int__\<close>.
\<close>

definition Era_int :: "Era \<Rightarrow> int" where
  "Era_int e = (era e - 1) * Era_length_in_seconds"

definition Year_int :: "Year \<Rightarrow> int" where
  "Year_int y = (year y - 1) * Year_length_in_seconds"

definition Season_int :: "Season \<Rightarrow> int" where
  "Season_int s = (season_of_year s - 1) * self_length_in_seconds s"

definition Day_int :: "Day \<Rightarrow> int" where
  "Day_int d = (day_of_season d - 1) * Day_length_in_seconds"

definition Hour_int :: "Hour \<Rightarrow> int" where
  "Hour_int h = hour h * Hour_length_in_seconds"

definition Minute_int :: "Minute \<Rightarrow> int" where
  "Minute_int m = minute m * Minute_length_in_seconds"

definition as_seconds :: "datetime \<Rightarrow> int" where
  "as_seconds dt =
     sum_list [Era_int (dt_era dt), Year_int (dt_year dt),
               Season_int (dt_season dt), Day_int (dt_day dt)]"

subsection \<open>Decomposition\<close>

text \<open>
  \<^verbatim>\<open>int(a / b)\<close>: the true quotient, truncated towards zero. The quotient is computed in
  double precision; for \<open>\<bar>a\<bar> < 2 ^ 52\<close> and the divisors used here, the rounded quotient
  has the same integer part as the exact one, which is what the model computes.
\<close>

definition int_truediv :: "int \<Rightarrow> int \<Rightarrow> int" where
  "int_truediv a b = sgn a * sgn b * (\<bar>a\<bar> div \<bar>b\<bar>)"

text \<open>
  The seven indices computed by \<^verbatim>\<open>datetime.from_seconds\<close> before it calls the
  constructor: era, year, season, day, hour and minute counted from 0, and the seconds left.
\<close>

definition indices :: "int \<Rightarrow> int \<times> int \<times> int \<times> int \<times> int \<times> int \<times> int" where
  "indices seconds =
     (let era_i = int_truediv seconds Era_length_in_seconds;
          e_sec = era_i * Era_length_in_seconds;
          year_i = int_truediv (seconds - e_sec) Year_length_in_seconds;
          y_sec = year_i * Year_length_in_seconds;
          season_i = int_truediv (seconds - e_sec - y_sec) Season_length_in_seconds;
          s_sec = season_i * Season_length_in_seconds;
          day_i = int_truediv (seconds - e_sec - y_sec - s_sec) Day_length_in_seconds;
          d_sec = day_i * Day_length_in_seconds;
          hour_i = int_truediv (seconds - e_sec - y_sec - s_sec - d_sec) Hour_length_in_seconds;
          h_sec = hour_i * Hour_length_in_seconds;
          minute_i = int_truediv (seconds - e_sec - y_sec - s_sec - d_sec - h_sec)
                       Minute_length_in_seconds;
          m_sec = minute_i * Minute_length_in_seconds
      in (era_i, year_i, season_i, day_i, hour_i, minute_i,
          seconds - e_sec - y_sec - s_sec - d_sec - h_sec - m_sec))"

definition from_seconds :: "int \<Rightarrow> error + datetime" where
  "from_seconds seconds =
     (case indices seconds of
        (era_i, year_i, season_i, day_i, hour_i, minute_i, sec) \<Rightarrow>
          datetime_init (era_i + 1) (year_i + 1) (season_i + 1) (day_i + 1)
            hour_i minute_i sec)"

subsection \<open>Views of a date used by the properties\<close>

text \<open>
  The calendar tuple of a date: the numbers of its era, year, season, day, hour and minute,
  and its second, in that order.
\<close>

definition as_tuple :: "datetime \<Rightarrow> int list" where
  "as_tuple dt =
     [era (dt_era dt), year (dt_year dt), season_of_year (dt_season dt),
      day_of_season (dt_day dt), hour (dt_hour dt), minute (dt_minute dt), dt_second dt]"

text \<open>Lexicographic comparison of two tuples, as Python compares tuples of integers.\<close>

fun lex_le :: "int list \<Rightarrow> int list \<Rightarrow> bool" where
  "lex_le [] ys = True"
| "lex_le (x # xs) [] = False"
| "lex_le (x # xs) (y # ys) = (x < y \<or> (x = y \<and> lex_le xs ys))"

text \<open>
  The composition the specification describes: the sum of the offsets of all seven levels,
  each offset being the one the object computes for itself.
\<close>

definition spec_compose :: "datetime \<Rightarrow> int" where
  "spec_compose dt =
     Era_int (dt_era dt) + Year_int (dt_year dt) + Season_int (dt_season dt)
     + Day_int (dt_day dt) + Hour_int (dt_hour dt) + Minute_int (dt_minute dt)
     + dt_second dt"

text \<open>
  The season lookup the specification describes: the seasons of a year as pairs of length
  and cumulative offset, walked in order until the pair whose range holds the remainder;
  the result is the position of that pair, counted from 0.
\<close>

fun cumulative_pairs :: "int \<Rightarrow> int list \<Rightarrow> (int \<times> int) list" where
  "cumulative_pairs off [] = []"
| "cumulative_pairs off (len # lens) = (len, off) # cumulative_pairs (off + len) lens"

definition spec_season_pairs :: "Year \<Rightarrow> (int \<times> int) list" where
  "spec_season_pairs yr = cumulative_pairs 0 (map self_length_in_seconds (seasons yr))"

fun spec_walk :: "(int \<times> int) list \<Rightarrow> int \<Rightarrow> int \<Rightarrow> int option" where
  "spec_walk [] remaining i = None"
| "spec_walk ((len, off) # ps) remaining i =
     (if off \<le> remaining \<and> remaining < off + len then Some i
      else spec_walk ps remaining (i + 1))"

section \<open>Properties\<close>

subsection \<open>The class attributes as numbers\<close>

lemma Minute_length: "Minute_length_in_seconds = 60"
  by (simp add: Minute_length_in_seconds_def)

lemma Hour_length: "Hour_length_in_seconds = 3600"
  by (simp add: Hour_length_in_seconds_def Minute_length)

lemma Day_length: "Day_length_in_seconds = 86400"
  by (simp add: Day_length_in_seconds_def Hour_length)

lemma Span_days: "Span_length_in_days = 5"
  by (simp add: Span_length_in_days_def Day_names_def)

lemma Season_days_45: "Season_length_in_days = 45"
  by (simp add: Season_length_in_days_def Season_length_in_spans_def Span_days)

lemma Season_length: "Season_length_in_seconds = 3888000"
  by (simp add: Season_length_in_seconds_def Season_days_45 Day_length)

lemma Festival_length: "FestivalOfTheHunt_length_in_seconds = 432000"
  by (simp add: FestivalOfTheHunt_length_in_seconds_def FestivalOfTheHunt_length_in_days_def
      Day_length)

lemma Year_seasons_8: "Year_length_in_seasons = 8"
  by (simp add: Year_length_in_seasons_def Season_names_def)

lemma Year_length: "Year_length_in_seconds = 31536000"
  by (simp add: Year_length_in_seconds_def Year_length_in_days_def Year_length_in_spans_def
      Year_seasons_8 Season_length_in_spans_def Span_days Day_length)

lemma Era_length: "Era_length_in_seconds = 315360000000"
  by (simp add: Era_length_in_seconds_def Year_length)

lemma Season_names_8: "int (length Season_names) = 8"
  by (simp add: Season_names_def)

lemma Era_long_names_3: "int (length Era_long_names) = 3"
  by (simp add: Era_long_names_def)

lemmas lengths =
  Minute_length Hour_length Day_length Season_length Festival_length Year_length Era_length

subsection \<open>Constructors in closed form\<close>

lemma and_then_Inr: "and_then r f = Inr v \<longleftrightarrow> (\<exists>x. r = Inr x \<and> f x = Inr v)"
  by (cases r) simp_all

lemma upto_1_8: "[1 .. 8 :: int] = [1, 2, 3, 4, 5, 6, 7, 8]"
  by (simp add: upto.simps)

lemma collect_seasons:
  "collect (map (\<lambda>i. Season_init i y) [1 .. Year_length_in_seasons]) =
     Inr (map (\<lambda>i. \<lparr>cls = SeasonClass, season_of_year = i, season_year = y\<rparr>)
            [1, 2, 3, 4, 5, 6, 7, 8])"
  by (simp add: Year_seasons_8 upto_1_8 Season_init_def Season_names_8)

lemma Year_init_Inr:
  assumes "Year_init y e = Inr yr"
  shows "yr = \<lparr>year_era = e, year = y,
               seasons = map (\<lambda>i. \<lparr>cls = SeasonClass, season_of_year = i, season_year = y\<rparr>)
                           [1, 2, 3, 4, 5, 6, 7, 8] @ [FestivalOfTheHunt_init y]\<rparr>"
  using assms unfolding Year_init_def collect_seasons by (simp split: if_splits)

lemma Year_init_unbounded:
  "era_end e = None \<Longrightarrow> Year_init y e =
     (if y < 1 then Inl InvalidYearError
      else Inr \<lparr>year_era = e, year = y,
                seasons = map (\<lambda>i. \<lparr>cls = SeasonClass, season_of_year = i, season_year = y\<rparr>)
                            [1, 2, 3, 4, 5, 6, 7, 8] @ [FestivalOfTheHunt_init y]\<rparr>)"
  unfolding Year_init_def collect_seasons by simp

lemma datetime_init_ok:
  assumes "1 \<le> e" "e \<le> 4" "1 \<le> y" "1 \<le> s" "s \<le> 9" "1 \<le> d" "d \<le> 45"
    "0 \<le> h" "h \<le> 23" "0 \<le> sec" "sec \<le> 59"
  shows "datetime_init e y s d h m sec =
    Inr \<lparr>dt_era = \<lparr>era = e, era_end = None\<rparr>,
         dt_year = \<lparr>year_era = \<lparr>era = e, era_end = None\<rparr>, year = y,
            seasons = map (\<lambda>i. \<lparr>cls = SeasonClass, season_of_year = i, season_year = y\<rparr>)
                        [1, 2, 3, 4, 5, 6, 7, 8] @ [FestivalOfTheHunt_init y]\<rparr>,
         dt_season = (if s = 9 then FestivalOfTheHunt_init y
                      else \<lparr>cls = SeasonClass, season_of_year = s, season_year = y\<rparr>),
         dt_day = \<lparr>day_of_season = d, day_season =
            Some (if s = 9 then FestivalOfTheHunt_init y
                  else \<lparr>cls = SeasonClass, season_of_year = s, season_year = y\<rparr>)\<rparr>,
         dt_hour = \<lparr>hour = h\<rparr>, dt_minute = \<lparr>minute = h\<rparr>, dt_second = sec\<rparr>"
  using assms
  by (simp add: datetime_init_def Era_init_def Era_long_names_3 Year_init_unbounded
      Year_seasons_8 Season_init_def Season_names_8 Day_init_def Season_days_45 Hour_init_def
      Minute_init_def)

subsection \<open>Decomposition in closed form\<close>

lemma int_truediv_nonneg: "0 \<le> a \<Longrightarrow> 0 < b \<Longrightarrow> int_truediv a b = a div b"
  by (cases "a = 0") (simp_all add: int_truediv_def)

lemma indices_nonneg:
  assumes "0 \<le> t"
  shows "indices t =
    (t div Era_length_in_seconds,
     t mod Era_length_in_seconds div Year_length_in_seconds,
     t mod Era_length_in_seconds mod Year_length_in_seconds div Season_length_in_seconds,
     t mod Era_length_in_seconds mod Year_length_in_seconds mod Season_length_in_seconds
       div Day_length_in_seconds,
     t mod Day_length_in_seconds div Hour_length_in_seconds,
     t mod Hour_length_in_seconds div Minute_length_in_seconds,
     t mod Minute_length_in_seconds)"
proof -
  define E where "E = Era_length_in_seconds"
  define Y where "Y = Year_length_in_seconds"
  define S where "S = Season_length_in_seconds"
  define D where "D = Day_length_in_seconds"
  define H where "H = Hour_length_in_seconds"
  define M where "M = Minute_length_in_seconds"
  have pos: "0 < E" "0 < Y" "0 < S" "0 < D" "0 < H" "0 < M"
    by (simp_all add: E_def Y_def S_def D_def H_def M_def lengths)
  have dvd: "M dvd H" "H dvd D" "D dvd S" "D dvd Y" "Y dvd E"
    by (simp_all add: E_def Y_def S_def D_def H_def M_def lengths)
  define r1 where "r1 = t mod E"
  define r2 where "r2 = r1 mod Y"
  define r3 where "r3 = r2 mod S"
  define r4 where "r4 = r3 mod D"
  define r5 where "r5 = r4 mod H"
  have nn: "0 \<le> r1" "0 \<le> r2" "0 \<le> r3" "0 \<le> r4" "0 \<le> r5"
    using pos by (simp_all add: r1_def r2_def r3_def r4_def r5_def)
  have e1: "t - t div E * E = r1" by (simp add: r1_def minus_div_mult_eq_mod)
  have e2: "r1 - r1 div Y * Y = r2" by (simp add: r2_def minus_div_mult_eq_mod)
  have e3: "r2 - r2 div S * S = r3" by (simp add: r3_def minus_div_mult_eq_mod)
  have e4: "r3 - r3 div D * D = r4" by (simp add: r4_def minus_div_mult_eq_mod)
  have e5: "r4 - r4 div H * H = r5" by (simp add: r5_def minus_div_mult_eq_mod)
  have e6: "r5 - r5 div M * M = r5 mod M" by (simp add: minus_div_mult_eq_mod)
  have s1: "indices t = (t div E, r1 div Y, r2 div S, r3 div D, r4 div H, r5 div M, r5 mod M)"
    unfolding indices_def Let_def E_def[symmetric] Y_def[symmetric] S_def[symmetric]
      D_def[symmetric] H_def[symmetric] M_def[symmetric]
    by (simp only: int_truediv_nonneg[OF assms pos(1)] int_truediv_nonneg[OF nn(1) pos(2)]
        int_truediv_nonneg[OF nn(2) pos(3)] int_truediv_nonneg[OF nn(3) pos(4)]
        int_truediv_nonneg[OF nn(4) pos(5)] int_truediv_nonneg[OF nn(5) pos(6)]
        e1 e2 e3 e4 e5 e6)
  have "D dvd E" using dvd by (meson dvd_trans)
  then have r4: "r4 = t mod D"
    unfolding r4_def r3_def r2_def r1_def using dvd by (simp add: mod_mod_cancel)
  have r5: "r5 = t mod H"
    unfolding r5_def r4 using dvd by (simp add: mod_mod_cancel)
  have r6: "r5 mod M = t mod M"
    unfolding r5 using dvd by (simp add: mod_mod_cancel)
  show ?thesis
    unfolding s1 r6 unfolding r5 r4 r3_def r2_def r1_def E_def Y_def S_def D_def H_def M_def ..
qed

lemma div_bound: "a < b \<Longrightarrow> 0 < c \<Longrightarrow> a div c \<le> (b - 1) div (c::int)"
  by (simp add: zdiv_mono1)

text \<open>
  Within the first four eras the decomposition returns a date: every index it computes
  passes the check of its constructor. The minute of the date is its hour.
\<close>

lemma from_seconds_returns:
  assumes "0 \<le> t" "t < 4 * Era_length_in_seconds"
  shows "\<exists>dt. from_seconds t = Inr dt
           \<and> as_tuple dt =
               [t div Era_length_in_seconds + 1,
                t mod Era_length_in_seconds div Year_length_in_seconds + 1,
                t mod Era_length_in_seconds mod Year_length_in_seconds
                  div Season_length_in_seconds + 1,
                t mod Era_length_in_seconds mod Year_length_in_seconds
                  mod Season_length_in_seconds div Day_length_in_seconds + 1,
                t mod Day_length_in_seconds div Hour_length_in_seconds,
                t mod Day_length_in_seconds div Hour_length_in_seconds,
                t mod Minute_length_in_seconds]"
proof -
  define e where "e = t div Era_length_in_seconds + 1"
  define y where "y = t mod Era_length_in_seconds div Year_length_in_seconds + 1"
  define r where "r = t mod Era_length_in_seconds mod Year_length_in_seconds"
  define s where "s = r div Season_length_in_seconds + 1"
  define d where "d = r mod Season_length_in_seconds div Day_length_in_seconds + 1"
  define h where "h = t mod Day_length_in_seconds div Hour_length_in_seconds"
  define m where "m = t mod Hour_length_in_seconds div Minute_length_in_seconds"
  define sec where "sec = t mod Minute_length_in_seconds"
  have "t div 315360000000 \<le> (4 * 315360000000 - 1) div 315360000000"
    using assms(2) by (intro div_bound) (simp_all add: Era_length)
  then have be: "1 \<le> e" "e \<le> 4"
    using assms(1) by (simp_all add: e_def Era_length)
  have by': "1 \<le> y"
    by (simp add: y_def lengths)
  have r: "0 \<le> r" "r < 31536000"
    by (simp_all add: r_def lengths)
  have bs: "1 \<le> s" "s \<le> 9"
    using r(1) div_bound[OF r(2), of 3888000] by (simp_all add: s_def lengths)
  have "r mod 3888000 < 3888000"
    by simp
  from div_bound[OF this, of 86400] have bd: "1 \<le> d" "d \<le> 45"
    using r(1) by (simp_all add: d_def lengths)
  have "t mod 86400 < 86400"
    by simp
  from div_bound[OF this, of 3600] have bh: "0 \<le> h" "h \<le> 23"
    using assms(1) by (simp_all add: h_def lengths)
  have "t mod 60 < 60"
    by simp
  then have bsec: "0 \<le> sec" "sec \<le> 59"
    by (simp_all add: sec_def lengths)
  have ix: "indices t = (e - 1, y - 1, s - 1, d - 1, h, m, sec)"
    unfolding indices_nonneg[OF assms(1)] e_def y_def s_def d_def h_def m_def sec_def r_def
    by simp
  have fs: "from_seconds t = datetime_init e y s d h m sec"
    unfolding from_seconds_def ix by simp
  show ?thesis
    unfolding fs datetime_init_ok[OF be by' bs bd bh bsec]
    unfolding e_def[symmetric] y_def[symmetric] r_def[symmetric] s_def[symmetric]
      d_def[symmetric] h_def[symmetric] sec_def[symmetric]
    by (simp add: as_tuple_def FestivalOfTheHunt_init_def)
qed

subsection \<open>Season and year construction\<close>

lemma Season_init_regular:
  "1 \<le> n \<Longrightarrow> n \<le> 8 \<Longrightarrow>
     Season_init n y = Inr \<lparr>cls = SeasonClass, season_of_year = n, season_year = y\<rparr>"
  by (simp add: Season_init_def Season_names_8)

lemma Season_init_out_of_range:
  "n < 1 \<or> 9 < n \<Longrightarrow> Season_init n y = Inl InvalidSeasonError"
  by (auto simp add: Season_init_def Season_names_8)

text \<open>
  Through the date constructor, season 9 is the festival: \<^verbatim>\<open>datetime.__init__\<close> tests for
  it before it calls \<^verbatim>\<open>Season\<close>.
\<close>

lemma datetime_init_season_9:
  assumes "datetime_init e y 9 d h m sec = Inr dt"
  shows "dt_season dt = FestivalOfTheHunt_init y"
  using assms
  by (auto simp add: datetime_init_def and_then_Inr Year_seasons_8 split: if_splits)

text \<open>
  Festival placement in a constructed year: nine seasons, the eighth a regular season of
  number 8, the ninth the festival, of number 9 and of class length 5 days.
\<close>

lemma Year_init_festival_last:
  assumes "Year_init y e = Inr yr"
  shows "length (seasons yr) = 9
    \<and> seasons yr ! 7 = \<lparr>cls = SeasonClass, season_of_year = 8, season_year = y\<rparr>
    \<and> seasons yr ! 8 = FestivalOfTheHunt_init y
    \<and> self_length_in_days (seasons yr ! 8) = 5"
  unfolding Year_init_Inr[OF assms]
  by (simp add: FestivalOfTheHunt_init_def self_length_in_days_def
      FestivalOfTheHunt_length_in_days_def)

lemma Era_init_succeeds_iff: "(\<exists>er. Era_init e en = Inr er) \<longleftrightarrow> 1 \<le> e \<and> e \<le> 4"
  by (auto simp add: Era_init_def Era_long_names_3)

text \<open>
  The offset of a date does not depend on its hour, minute or second.
\<close>

lemma as_seconds_ignores_time:
  "as_seconds (dt\<lparr>dt_hour := hr, dt_minute := mn, dt_second := sec\<rparr>) = as_seconds dt"
  by (simp add: as_seconds_def)

subsection \<open>The season step of the decomposition\<close>

text \<open>
  For a remainder within a year, the walk over the pairs of the year's seasons stops at the
  position that division by the length of a regular season computes, and the day computed
  from what is left lies within the length of the season at that position.
\<close>

lemma spec_season_pairs_Year:
  assumes "Year_init y e = Inr yr"
  shows "spec_season_pairs yr =
    [(3888000, 0), (3888000, 3888000), (3888000, 7776000), (3888000, 11664000),
     (3888000, 15552000), (3888000, 19440000), (3888000, 23328000), (3888000, 27216000),
     (432000, 31104000)]"
  unfolding Year_init_Inr[OF assms]
  by (simp add: spec_season_pairs_def self_length_in_seconds_def FestivalOfTheHunt_init_def
      lengths)

lemma season_length_at:
  assumes "Year_init y e = Inr yr" "0 \<le> k" "k \<le> 8"
  shows "self_length_in_days (seasons yr ! nat k) = (if k = 8 then 5 else 45)"
proof -
  from assms(2,3) consider "k = 0" | "k = 1" | "k = 2" | "k = 3" | "k = 4" | "k = 5"
    | "k = 6" | "k = 7" | "k = 8"
    by arith
  then show ?thesis
    unfolding Year_init_Inr[OF assms(1)]
    by cases
      (simp_all add: self_length_in_days_def FestivalOfTheHunt_init_def Season_days_45
        FestivalOfTheHunt_length_in_days_def)
qed

lemma season_step:
  assumes yr: "Year_init y e = Inr yr" and r: "0 \<le> r" "r < Year_length_in_seconds"
  shows "spec_walk (spec_season_pairs yr) r 0 = Some (r div Season_length_in_seconds)
    \<and> 0 \<le> r div Season_length_in_seconds \<and> r div Season_length_in_seconds \<le> 8
    \<and> 0 \<le> r mod Season_length_in_seconds div Day_length_in_seconds
    \<and> r mod Season_length_in_seconds div Day_length_in_seconds + 1
        \<le> self_length_in_days (seasons yr ! nat (r div Season_length_in_seconds))"
proof -
  define k where "k = r div 3888000"
  define m where "m = r mod 3888000"
  have rk: "r = 3888000 * k + m"
    by (simp add: k_def m_def)
  have m: "0 \<le> m" "m < 3888000"
    by (simp_all add: m_def)
  have r': "r < 31536000"
    using r(2) by (simp add: Year_length)
  have k: "0 \<le> k" "k \<le> 8"
    using r(1) div_bound[OF r', of 3888000] by (simp_all add: k_def)
  from k consider "k = 0" | "k = 1" | "k = 2" | "k = 3" | "k = 4" | "k = 5"
    | "k = 6" | "k = 7" | "k = 8"
    by arith
  then have walk: "spec_walk (spec_season_pairs yr) r 0 = Some k"
    unfolding spec_season_pairs_Year[OF yr] using m r'[unfolded rk] by cases (simp_all add: rk)
  have d0: "0 \<le> m div 86400"
    using m(1) by simp
  have day: "m div 86400 + 1 \<le> (if k = 8 then 5 else 45)"
  proof (cases "k = 8")
    case True
    then have "m < 432000"
      using r' rk by simp
    from div_bound[OF this, of 86400] show ?thesis
      using True by simp
  next
    case False
    from div_bound[OF m(2), of 86400] show ?thesis
      using False by simp
  qed
  show ?thesis
    unfolding lengths using walk k d0 day season_length_at[OF yr k]
    unfolding k_def m_def by simp
qed

lemma indices_within_year:
  assumes "0 \<le> r" "r < Year_length_in_seconds"
  shows "\<exists>rest. indices r =
    (0, 0, r div Season_length_in_seconds,
     r mod Season_length_in_seconds div Day_length_in_seconds, rest)"
proof -
  have "r < Era_length_in_seconds"
    using assms(2) by (simp add: lengths)
  then have "r div Era_length_in_seconds = 0" "r mod Era_length_in_seconds = r"
    "r div Year_length_in_seconds = 0" "r mod Year_length_in_seconds = r"
    using assms by simp_all
  then show ?thesis
    unfolding indices_nonneg[OF assms(1)] by simp
qed

section \<open>The claims\<close>

text \<open>
  C1. Claim: for every integer \<open>t\<close> with \<open>0 \<le> t < 3 * Era.length_in_seconds\<close>, composing
  the date obtained by decomposing \<open>t\<close> gives \<open>t\<close> again. The code at \<open>t = 1\<close>:
  \<^verbatim>\<open>from_seconds(1)\<close> returns a date, and its \<^verbatim>\<open>as_seconds\<close> is 0, since
  \<^verbatim>\<open>as_seconds\<close> adds the offsets of era, year, season and day only.
\<close>

theorem from_seconds_then_as_seconds_at_1:
  "map_sum id as_seconds (from_seconds 1) = Inr 0"
  by code_simp

text \<open>
  C2. Claim: for every date built by the seven-component constructor from in-range
  values, decomposing its composed offset gives the date back. The code at
  \<^verbatim>\<open>datetime(1, 1, 1, 1, 0, 0, 1)\<close>: the date has second 1 and offset 0, and
  \<^verbatim>\<open>from_seconds(0)\<close> has second 0.
\<close>

theorem as_seconds_then_from_seconds_loses_second:
  "map_sum id dt_second (datetime_init 1 1 1 1 0 0 1) = Inr 1
   \<and> map_sum id as_seconds (datetime_init 1 1 1 1 0 0 1) = Inr 0
   \<and> map_sum id dt_second (from_seconds 0) = Inr 0
   \<and> from_seconds 0 \<noteq> datetime_init 1 1 1 1 0 0 1"
  by code_simp

text \<open>
  C3. Claim: the composed offset of a constructed date is the sum of all seven per-level
  offsets. The code at \<^verbatim>\<open>datetime(1, 1, 1, 1, 2, 0, 3)\<close>: \<^verbatim>\<open>as_seconds\<close> is 0, while the
  seven offsets add up to \<open>2 * 3600 + 2 * 60 + 3\<close> (the minute object holds the hour).
\<close>

theorem as_seconds_is_not_the_sum_of_seven:
  "map_sum id as_seconds (datetime_init 1 1 1 1 2 0 3) = Inr 0
   \<and> map_sum id spec_compose (datetime_init 1 1 1 1 2 0 3) = Inr 7323"
  by code_simp

text \<open>
  C4. Claim: a day is bounded by the length of the season that owns it, so that day 6 of
  the festival is refused. The code: \<^verbatim>\<open>Day(6, season=festival)\<close> is constructed.
\<close>

theorem Day_6_of_festival_is_constructed:
  "\<not> isl (Day_init 6 (Some (FestivalOfTheHunt_init 1)))"
  by (simp add: Day_init_def Season_days_45)

text \<open>
  C4, as amended. A day is bounded by the class attribute \<^verbatim>\<open>Season.length_in_days\<close>, 45,
  whichever season owns it: day 45 of any season is constructed and day 46 raises
  \<^verbatim>\<open>InvalidDayError\<close>; days 5 and 6 of the festival are both constructed; in general the
  constructor raises exactly below 1 and above 45.
\<close>

theorem Day_init_bounded_by_45:
  "Day_init 45 (Some s) = Inr \<lparr>day_of_season = 45, day_season = Some s\<rparr>
   \<and> Day_init 46 (Some s) = Inl InvalidDayError
   \<and> Day_init 5 (Some (FestivalOfTheHunt_init y))
       = Inr \<lparr>day_of_season = 5, day_season = Some (FestivalOfTheHunt_init y)\<rparr>
   \<and> Day_init 6 (Some (FestivalOfTheHunt_init y))
       = Inr \<lparr>day_of_season = 6, day_season = Some (FestivalOfTheHunt_init y)\<rparr>
   \<and> (Day_init d so = Inl InvalidDayError \<longleftrightarrow> d < 1 \<or> 45 < d)"
  by (simp add: Day_init_def Season_days_45)

theorem Day_init_bounded_by_45_witness:
  "Day_init 46 (Some (FestivalOfTheHunt_init 1)) = Inl InvalidDayError
   \<and> Day_init 6 (Some (FestivalOfTheHunt_init 1))
       = Inr \<lparr>day_of_season = 6, day_season = Some (FestivalOfTheHunt_init 1)\<rparr>
   \<and> (Day_init 0 None = Inl InvalidDayError)"
  using Day_init_bounded_by_45 [of "FestivalOfTheHunt_init 1" 1 0 None] by simp

text \<open>
  C5. Claim: constructing a season with ordinal 9 yields the festival, and an ordinal
  below 1 or above 9 is refused. The code at \<^verbatim>\<open>Season(9, 1)\<close>: \<^verbatim>\<open>__init__\<close> returns the
  festival object instead of \<^verbatim>\<open>None\<close>, and the call raises \<^verbatim>\<open>TypeError\<close>.
\<close>

theorem Season_init_9_raises:
  "Season_init 9 1 = Inl TypeError"
  by (simp add: Season_init_def Season_names_8)

text \<open>
  C6. Claim: some remainder within a year exists at which division by the length of a
  regular season selects another season, or a day out of range, than the walk over the
  nine pairs of length and cumulative offset. The code: no such remainder exists. The
  table is that of year 1 of era 1; the season and day are those \<^verbatim>\<open>from_seconds\<close>
  computes.
\<close>

theorem no_remainder_where_division_and_walk_differ:
  "\<not> (\<exists>r. 0 \<le> r \<and> r < Year_length_in_seconds \<and>
        (case indices r of (era_i, year_i, season_i, day_i, rest) \<Rightarrow>
           spec_walk (spec_season_pairs (projr (Year_init 1 \<lparr>era = 1, era_end = None\<rparr>))) r 0
             \<noteq> Some season_i
           \<or> day_i + 1 < 1
           \<or> self_length_in_days
                (seasons (projr (Year_init 1 \<lparr>era = 1, era_end = None\<rparr>)) ! nat season_i)
              < day_i + 1))"
proof (intro notI, elim exE conjE)
  fix r :: int
  define yr where "yr = projr (Year_init 1 \<lparr>era = 1, era_end = None\<rparr>)"
  define s where "s = r div Season_length_in_seconds"
  define d where "d = r mod Season_length_in_seconds div Day_length_in_seconds"
  assume r: "0 \<le> r" "r < Year_length_in_seconds"
  assume "case indices r of (era_i, year_i, season_i, day_i, rest) \<Rightarrow>
           spec_walk (spec_season_pairs (projr (Year_init 1 \<lparr>era = 1, era_end = None\<rparr>))) r 0
             \<noteq> Some season_i
           \<or> day_i + 1 < 1
           \<or> self_length_in_days
                (seasons (projr (Year_init 1 \<lparr>era = 1, era_end = None\<rparr>)) ! nat season_i)
              < day_i + 1"
  moreover from indices_within_year[OF r] obtain rest where
    "indices r = (0, 0, s, d, rest)"
    unfolding s_def d_def by blast
  ultimately have bad: "spec_walk (spec_season_pairs yr) r 0 \<noteq> Some s
      \<or> d + 1 < 1 \<or> self_length_in_days (seasons yr ! nat s) < d + 1"
    unfolding yr_def by (simp only: prod.case)
  have y: "Year_init 1 \<lparr>era = 1, era_end = None\<rparr> = Inr yr"
    unfolding yr_def by (simp add: Year_init_unbounded)
  note st = season_step[OF y r, folded s_def d_def]
  from bad consider "spec_walk (spec_season_pairs yr) r 0 \<noteq> Some s" | "d + 1 < 1"
    | "self_length_in_days (seasons yr ! nat s) < d + 1"
    by blast
  then show False
  proof cases
    case 1
    with st[THEN conjunct1] show False by (rule notE[rotated])
  next
    case 2
    with st[THEN conjunct2, THEN conjunct2, THEN conjunct2, THEN conjunct1] show False
      by linarith
  next
    case 3
    with st[THEN conjunct2, THEN conjunct2, THEN conjunct2, THEN conjunct2] show False
      by linarith
  qed
qed

text \<open>
  C6, as amended. For every non-negative offset, the season index that
  \<^verbatim>\<open>from_seconds\<close> computes by division by the length of a regular season is the
  position the walk finds for the remainder within the year, and the day it computes lies
  between 1 and the length in days of the season at that position (the short festival is
  the last season, so the eight equal seasons before it make division exact).
\<close>

theorem season_division_agrees_with_walk:
  assumes "Year_init y e = Inr yr" and "0 \<le> t"
    and "indices t = (era_i, year_i, season_i, day_i, rest)"
  shows "spec_walk (spec_season_pairs yr)
           (t - era_i * Era_length_in_seconds - year_i * Year_length_in_seconds) 0
         = Some season_i
    \<and> 1 \<le> day_i + 1
    \<and> day_i + 1 \<le> self_length_in_days (seasons yr ! nat season_i)"
proof -
  define r where "r = t mod Era_length_in_seconds mod Year_length_in_seconds"
  have r: "0 \<le> r" "r < Year_length_in_seconds"
    by (simp_all add: r_def lengths)
  have ix: "era_i = t div Era_length_in_seconds"
    "year_i = t mod Era_length_in_seconds div Year_length_in_seconds"
    "season_i = r div Season_length_in_seconds"
    "day_i = r mod Season_length_in_seconds div Day_length_in_seconds"
    using assms(3) unfolding indices_nonneg[OF assms(2)] r_def by simp_all
  have "t - era_i * Era_length_in_seconds = t mod Era_length_in_seconds"
    unfolding ix by (simp add: minus_div_mult_eq_mod)
  then have rem: "t - era_i * Era_length_in_seconds - year_i * Year_length_in_seconds = r"
    unfolding ix r_def by (simp add: minus_div_mult_eq_mod)
  show ?thesis
    unfolding rem using season_step[OF assms(1) r] unfolding ix by simp
qed

theorem season_division_agrees_with_walk_witness:
  "spec_walk (spec_season_pairs (projr (Year_init 1 \<lparr>era = 1, era_end = None\<rparr>)))
     (31104000 - 0 * Era_length_in_seconds - 0 * Year_length_in_seconds) 0 = Some 8
   \<and> (1::int) \<le> 0 + 1
   \<and> 0 + 1 \<le> self_length_in_days
                 (seasons (projr (Year_init 1 \<lparr>era = 1, era_end = None\<rparr>)) ! nat 8)"
proof -
  have y: "Year_init 1 \<lparr>era = 1, era_end = None\<rparr>
             = Inr (projr (Year_init 1 \<lparr>era = 1, era_end = None\<rparr>))"
    by (simp add: Year_init_unbounded)
  have t: "(0::int) \<le> 31104000"
    by simp
  have ix: "indices 31104000 = (0, 0, 8, 0, 0, 0, 0)"
    by (simp add: indices_nonneg lengths)
  show ?thesis
    using season_division_agrees_with_walk [OF y t ix] by simp
qed

text \<open>
  C7. Claim: decomposition is monotone in the lexicographic order of the calendar tuple.
  The code at \<open>59 < 60\<close>: the minute of the date is its hour, so the tuple of 59 ends in
  \<open>0, 0, 59\<close> and the tuple of 60 in \<open>0, 0, 0\<close>.
\<close>

theorem from_seconds_not_monotone_at_59_60:
  "map_sum id as_tuple (from_seconds 59) = Inr [1, 1, 1, 1, 0, 0, 59]
   \<and> map_sum id as_tuple (from_seconds 60) = Inr [1, 1, 1, 1, 0, 0, 0]
   \<and> \<not> lex_le [1, 1, 1, 1, 0, 0, 59] [1, 1, 1, 1, 0, 0, 0]"
  by code_simp

text \<open>
  C8. Claim: in every constructed year the season at ordinal 9 is a festival that contains
  exactly 5 days and follows the season at ordinal 8. The code at year 1 of era 1: the ninth
  season is the festival and follows season 8, and its \<^verbatim>\<open>days\<close> list has 45 elements.
\<close>

theorem festival_days_has_45_elements:
  "map_sum id (\<lambda>yr. (length (seasons yr), season_of_year (seasons yr ! 7),
        cls (seasons yr ! 8), season_of_year (seasons yr ! 8),
        map_sum id length (Season_days (seasons yr ! 8))))
     (Year_init 1 \<lparr>era = 1, era_end = None\<rparr>)
   = Inr (9, 8, FestivalOfTheHuntClass, 9, Inr 45)"
  by code_simp

text \<open>
  C9. Claim: an era is constructed exactly when its ordinal is 1, 2 or 3. The code at
  \<^verbatim>\<open>Era(4)\<close>: the era is constructed.
\<close>

theorem Era_init_4_is_constructed:
  "Era_init 4 None = Inr \<lparr>era = 4, era_end = None\<rparr>"
  by (simp add: Era_init_def Era_long_names_3)

text \<open>
  C10. The seven-component constructor ignores its minute argument: when it returns a date,
  the minute of that date is the hour argument, and the call with any other minute argument
  returns the same date.
\<close>

theorem datetime_init_ignores_minute:
  assumes "datetime_init e y s d h m sec = Inr dt"
  shows "minute (dt_minute dt) = h \<and> datetime_init e y s d h m' sec = Inr dt"
proof
  show "minute (dt_minute dt) = h"
    using assms
    by (auto simp add: datetime_init_def and_then_Inr Minute_init_def split: if_splits)
  have "datetime_init e y s d h m' sec = datetime_init e y s d h m sec"
    by (simp add: datetime_init_def)
  then show "datetime_init e y s d h m' sec = Inr dt"
    using assms by simp
qed

theorem datetime_init_ignores_minute_witness:
  "\<exists>dt. datetime_init 1 1 1 1 5 30 0 = Inr dt \<and> minute (dt_minute dt) = 5
     \<and> datetime_init 1 1 1 1 5 7 0 = Inr dt"
proof -
  obtain dt where h: "datetime_init 1 1 1 1 5 30 0 = Inr dt"
    by (simp add: datetime_init_ok)
  show ?thesis
    using datetime_init_ignores_minute [OF h, of 7] h by blast
qed

end
